theory Spec2Isabelle
  imports Main "HOL-Library.Monad_Syntax"
begin

section \<open>Characters and Python text conversions\<close>

text \<open>
  The script \<^verbatim>\<open>server.py\<close> builds every statement it sends to the graph store by
  string interpolation. Two characters matter for the literals: the single quote and the
  backslash.
\<close>

abbreviation sq :: char where "sq \<equiv> CHR 0x27"
abbreviation bs :: char where "bs \<equiv> CHR 0x5C"

text \<open>\<^verbatim>\<open>str(n)\<close> for a Python integer: the decimal digits, with a minus sign when negative.\<close>

definition digit_char :: "nat \<Rightarrow> char" where
  "digit_char d = ''0123456789'' ! (d mod 10)"

fun str_nat :: "nat \<Rightarrow> string" where
  "str_nat n = (if n < 10 then [digit_char n] else str_nat (n div 10) @ [digit_char (n mod 10)])"

declare str_nat.simps [simp del]

definition str_int :: "int \<Rightarrow> string" where
  "str_int i = (if i < 0 then CHR ''-'' # str_nat (nat (- i)) else str_nat (nat i))"

text \<open>\<^verbatim>\<open>"%0wd" % n\<close> for a non-negative \<open>n\<close>: the digits, padded with zeros on the left.\<close>

definition zpad :: "nat \<Rightarrow> nat \<Rightarrow> string" where
  "zpad w n = replicate (w - length (str_nat n)) (CHR ''0'') @ str_nat n"

text \<open>\<^verbatim>\<open>"%+d" % i\<close>: the sign is always written.\<close>

definition str_signed :: "int \<Rightarrow> string" where
  "str_signed i = (if i < 0 then CHR ''-'' # str_nat (nat (- i)) else CHR ''+'' # str_nat (nat i))"

text \<open>
  \<^verbatim>\<open>s.replace(old, new)\<close> where \<open>old\<close> is a single character, as in line 52 of the script:
  every occurrence of the character, left to right, is replaced by \<open>new\<close>.
\<close>

fun replace_char :: "char \<Rightarrow> string \<Rightarrow> string \<Rightarrow> string" where
  "replace_char old new [] = []"
| "replace_char old new (c # cs) =
     (if c = old then new @ replace_char old new cs else c # replace_char old new cs)"

section \<open>Column types and the Type Mapper\<close>

text \<open>
  The declared type of a reflected column is an instance of one of SQLAlchemy's type
  classes. The script imports three of them (\<^verbatim>\<open>Integer\<close>, \<^verbatim>\<open>Float\<close>, \<^verbatim>\<open>DateTime\<close>) and tests
  membership with \<^verbatim>\<open>isinstance\<close>, which follows the class hierarchy of the library:
  \<^verbatim>\<open>SmallInteger\<close> and \<^verbatim>\<open>BigInteger\<close> derive from \<^verbatim>\<open>Integer\<close>; \<^verbatim>\<open>Float\<close> derives from
  \<^verbatim>\<open>Numeric\<close> (not the other way round) and \<^verbatim>\<open>Double\<close> from \<^verbatim>\<open>Float\<close>; \<^verbatim>\<open>DateTime\<close>,
  \<^verbatim>\<open>Date\<close> and \<^verbatim>\<open>Time\<close> are unrelated siblings. The class declarations are the library's,
  not the script's; \<open>mro\<close> lists each class with its ancestors among the modelled ones.
\<close>

datatype sa_type =
    SmallInteger | Integer | BigInteger
  | Numeric | Float | Double
  | DateTime | Date | Time | Interval
  | Boolean | String_t | Text
  | OtherType string

fun mro :: "sa_type \<Rightarrow> sa_type list" where
  "mro SmallInteger = [SmallInteger, Integer]"
| "mro BigInteger = [BigInteger, Integer]"
| "mro Float = [Float, Numeric]"
| "mro Double = [Double, Float, Numeric]"
| "mro Text = [Text, String_t]"
| "mro t = [t]"

definition isinstance :: "sa_type \<Rightarrow> sa_type \<Rightarrow> bool" where
  "isinstance t cls = (cls \<in> set (mro t))"

record column =
  col_name :: string
  col_type :: sa_type
  col_primary_key :: bool

text \<open>Lines 40 to 45.\<close>

definition infer_type :: "column \<Rightarrow> string" where
  "infer_type col =
     (if isinstance (col_type col) Integer then ''INT''
      else if isinstance (col_type col) Float then ''DOUBLE''
      else if isinstance (col_type col) DateTime then ''TIMESTAMP''
      else ''STRING'')"

text \<open>
  The specification speaks of type families and of four primitive type names. This is the
  mapping as the specification words it, for comparison with \<open>infer_type\<close>.
\<close>

datatype family = IntegerFamily | FloatDecimalFamily | DateTimeFamily | OtherFamily

fun family_of :: "sa_type \<Rightarrow> family" where
  "family_of SmallInteger = IntegerFamily"
| "family_of Integer = IntegerFamily"
| "family_of BigInteger = IntegerFamily"
| "family_of Numeric = FloatDecimalFamily"
| "family_of Float = FloatDecimalFamily"
| "family_of Double = FloatDecimalFamily"
| "family_of DateTime = DateTimeFamily"
| "family_of Date = DateTimeFamily"
| "family_of Time = DateTimeFamily"
| "family_of t = OtherFamily"

fun spec_primitive :: "family \<Rightarrow> string" where
  "spec_primitive IntegerFamily = ''INTEGER''"
| "spec_primitive FloatDecimalFamily = ''DOUBLE''"
| "spec_primitive DateTimeFamily = ''TIMESTAMP''"
| "spec_primitive OtherFamily = ''STRING''"

section \<open>Runtime values and the Value Serializer\<close>

text \<open>
  The values a row can hold, by the Python classes \<^verbatim>\<open>format_val\<close> tells apart.
  \<^item> A \<^verbatim>\<open>float\<close> is not-a-number, an infinity, or a finite number. Binary floating point
    is outside this development: a finite float is carried by what the interpreter's
    shortest-digits conversion yields for it, namely its sign, the shortest run of decimal
    digits that reads back as the same float (as a number) and the position of the decimal
    point relative to the start of those digits. \<^verbatim>\<open>str\<close> formats these, see \<open>str_float\<close>.
  \<^item> A \<^verbatim>\<open>Decimal\<close> has the three fields of the standard library's class: \<^verbatim>\<open>_sign\<close>,
    \<^verbatim>\<open>_int\<close> (the coefficient's digits, as text) and \<^verbatim>\<open>_exp\<close> (an integer, or one of the
    letters F, n, N for infinity, NaN and signalling NaN).
  \<^item> A \<^verbatim>\<open>date\<close> holds year, month and day; a \<^verbatim>\<open>datetime\<close> adds the time of day and the
    offset from UTC, in microseconds, when it has a time zone.
  \<^item> A string is itself; a value of any other class is carried by the text \<^verbatim>\<open>str\<close> returns
    for it.
\<close>

datatype dexp = Exp int | ExpF | Expn | ExpN

record Decimal =
  d_sign :: bool
  d_int :: string
  d_exp :: dexp

record date =
  year :: nat
  month :: nat
  day :: nat

record datetime = date +
  hour :: nat
  minute :: nat
  second :: nat
  microsecond :: nat
  utcoffset :: "int option"

datatype pyfloat = NaN | Inf bool | Finite bool nat int

datatype pyval =
    PNone
  | PBool bool
  | PInt int
  | PFloat pyfloat
  | PDecimal Decimal
  | PDate date
  | PDateTime datetime
  | PStr string
  | POther string

text \<open>
  \<^verbatim>\<open>Decimal.__str__\<close> of the standard library (the "to-scientific-string" conversion of the
  General Decimal Arithmetic specification), with the default context, which writes the
  exponent with a capital E.
\<close>

definition str_Decimal :: "Decimal \<Rightarrow> string" where
  "str_Decimal d =
     (let sign = (if d_sign d then ''-'' else []) in
      case d_exp d of
        ExpF \<Rightarrow> sign @ ''Infinity''
      | Expn \<Rightarrow> sign @ ''NaN'' @ d_int d
      | ExpN \<Rightarrow> sign @ ''sNaN'' @ d_int d
      | Exp e \<Rightarrow>
          (let leftdigits = e + int (length (d_int d));
               dotplace = (if e \<le> 0 \<and> leftdigits > - 6 then leftdigits else 1);
               intpart =
                 (if dotplace \<le> 0 then ''0''
                  else if dotplace \<ge> int (length (d_int d))
                    then d_int d @ replicate (nat (dotplace - int (length (d_int d)))) (CHR ''0'')
                  else take (nat dotplace) (d_int d));
               fracpart =
                 (if dotplace \<le> 0 then CHR ''.'' # replicate (nat (- dotplace)) (CHR ''0'') @ d_int d
                  else if dotplace \<ge> int (length (d_int d)) then []
                  else CHR ''.'' # drop (nat dotplace) (d_int d));
               exp = (if leftdigits = dotplace then []
                      else CHR ''E'' # str_signed (leftdigits - dotplace))
           in sign @ intpart @ fracpart @ exp))"

text \<open>
  \<^verbatim>\<open>str\<close> of a \<^verbatim>\<open>float\<close>, which is \<^verbatim>\<open>float.__repr__\<close>: the words \<^verbatim>\<open>nan\<close>, \<^verbatim>\<open>inf\<close> and \<^verbatim>\<open>-inf\<close>;
  for a finite float the shortest digits, in scientific notation when the decimal point
  position is at most \<open>-4\<close> or greater than 16 (the exponent written with its sign and at
  least two digits), and otherwise in positional notation, with \<^verbatim>\<open>.0\<close> added to a whole
  number.
\<close>

definition str_exponent :: "int \<Rightarrow> string" where
  "str_exponent x = (if x < 0 then ''-'' else ''+'') @ zpad 2 (nat (abs x))"

definition str_float :: "pyfloat \<Rightarrow> string" where
  "str_float f =
     (case f of
        NaN \<Rightarrow> ''nan''
      | Inf neg \<Rightarrow> (if neg then ''-inf'' else ''inf'')
      | Finite neg m decpt \<Rightarrow>
          (let digits = str_nat m;
               n = int (length digits);
               sign = (if neg then ''-'' else [])
           in if decpt \<le> - 4 \<or> 16 < decpt
                then sign @ take 1 digits @ (if 1 < n then CHR ''.'' # drop 1 digits else []) @
                     CHR ''e'' # str_exponent (decpt - 1)
              else if decpt \<le> 0
                then sign @ ''0.'' @ replicate (nat (- decpt)) (CHR ''0'') @ digits
              else if decpt < n
                then sign @ take (nat decpt) digits @ CHR ''.'' # drop (nat decpt) digits
              else sign @ digits @ replicate (nat (decpt - n)) (CHR ''0'') @ ''.0''))"

text \<open>
  \<^verbatim>\<open>date.isoformat()\<close> and \<^verbatim>\<open>datetime.isoformat(sep)\<close> of the standard library;
  \<^verbatim>\<open>str\<close> of a \<^verbatim>\<open>datetime\<close> is \<^verbatim>\<open>isoformat(sep=' ')\<close>.
\<close>

definition date_isoformat :: "'a date_scheme \<Rightarrow> string" where
  "date_isoformat d = zpad 4 (year d) @ ''-'' @ zpad 2 (month d) @ ''-'' @ zpad 2 (day d)"

definition format_time :: "datetime \<Rightarrow> string" where
  "format_time t =
     zpad 2 (hour t) @ '':'' @ zpad 2 (minute t) @ '':'' @ zpad 2 (second t) @
     (if microsecond t \<noteq> 0 then ''.'' @ zpad 6 (microsecond t) else [])"

definition format_offset :: "int option \<Rightarrow> string" where
  "format_offset off =
     (case off of
        None \<Rightarrow> []
      | Some v \<Rightarrow>
          (let sign = (if v < 0 then ''-'' else ''+'');
               a = nat (abs v);
               hh = a div 3600000000;
               r = a mod 3600000000;
               mm = r div 60000000;
               ss = r mod 60000000
           in sign @ zpad 2 hh @ '':'' @ zpad 2 mm @
              (if ss \<noteq> 0
               then '':'' @ zpad 2 (ss div 1000000) @
                    (if ss mod 1000000 \<noteq> 0 then ''.'' @ zpad 6 (ss mod 1000000) else [])
               else [])))"

definition datetime_isoformat :: "char \<Rightarrow> datetime \<Rightarrow> string" where
  "datetime_isoformat sep t =
     date_isoformat t @ [sep] @ format_time t @ format_offset (utcoffset t)"

text \<open>
  The classes \<^verbatim>\<open>format_val\<close> tests for, and the ancestors each value's class has among
  them: \<^verbatim>\<open>bool\<close> is a subclass of \<^verbatim>\<open>int\<close>, and \<^verbatim>\<open>datetime\<close> is a subclass of \<^verbatim>\<open>date\<close>.
\<close>

datatype pyclass =
  C_NoneType | C_bool | C_int | C_float | C_Decimal | C_date | C_datetime | C_str | C_object

fun class_mro :: "pyval \<Rightarrow> pyclass list" where
  "class_mro PNone = [C_NoneType, C_object]"
| "class_mro (PBool b) = [C_bool, C_int, C_object]"
| "class_mro (PInt i) = [C_int, C_object]"
| "class_mro (PFloat f) = [C_float, C_object]"
| "class_mro (PDecimal d) = [C_Decimal, C_object]"
| "class_mro (PDate d) = [C_date, C_object]"
| "class_mro (PDateTime t) = [C_datetime, C_date, C_object]"
| "class_mro (PStr s) = [C_str, C_object]"
| "class_mro (POther s) = [C_object]"

text \<open>\<^verbatim>\<open>isinstance(val, (c1, ..., cn))\<close>: the class of the value descends from one of them.\<close>

definition isinstance_val :: "pyval \<Rightarrow> pyclass list \<Rightarrow> bool" where
  "isinstance_val val classes = list_ex (\<lambda>c. c \<in> set (class_mro val)) classes"

text \<open>\<^verbatim>\<open>str(val)\<close>, the truth value of \<^verbatim>\<open>val\<close>, and \<^verbatim>\<open>val.isoformat()\<close>.\<close>

fun str_val :: "pyval \<Rightarrow> string" where
  "str_val PNone = ''None''"
| "str_val (PBool b) = (if b then ''True'' else ''False'')"
| "str_val (PInt i) = str_int i"
| "str_val (PFloat f) = str_float f"
| "str_val (PDecimal d) = str_Decimal d"
| "str_val (PDate d) = date_isoformat d"
| "str_val (PDateTime t) = datetime_isoformat (CHR '' '') t"
| "str_val (PStr s) = s"
| "str_val (POther s) = s"

fun truthy :: "pyval \<Rightarrow> bool" where
  "truthy (PBool b) = b"
| "truthy v = True"

fun isoformat :: "pyval \<Rightarrow> string" where
  "isoformat (PDate d) = date_isoformat d"
| "isoformat (PDateTime t) = datetime_isoformat (CHR ''T'') t"
| "isoformat v = []"

text \<open>
  Lines 47 to 53, test by test in the order of the source. \<open>truthy\<close> is only consulted for
  a \<^verbatim>\<open>bool\<close> and \<open>isoformat\<close> only for a \<^verbatim>\<open>date\<close>, the classes that have them.
\<close>

definition format_val :: "pyval \<Rightarrow> string" where
  "format_val val =
     (if val = PNone then ''null''
      else if isinstance_val val [C_bool] then (if truthy val then ''true'' else ''false'')
      else if isinstance_val val [C_int, C_float, C_Decimal] then str_val val
      else if isinstance_val val [C_date, C_datetime] then [sq] @ isoformat val @ [sq]
      else (let s = replace_char sq [bs, sq] (str_val val) in [sq] @ s @ [sq]))"


text \<open>
  What the specification asks of a literal: it is "syntactically closed", with no
  unescaped quote inside its quoted body. In the query language a backslash escapes the
  character after it, so the body of a quoted literal is scanned pair by pair: the first
  quote that is not escaped ends the literal, and the literal is closed when that quote is
  the last character of the text. An unquoted literal holds no quote at all.
\<close>

fun body_closed :: "string \<Rightarrow> bool" where
  "body_closed [] = False"
| "body_closed [c] = (c = sq)"
| "body_closed (c # d # cs) =
     (if c = bs then body_closed cs
      else if c = sq then False
      else body_closed (d # cs))"

definition closed_literal :: "string \<Rightarrow> bool" where
  "closed_literal txt =
     (case txt of
        [] \<Rightarrow> False
      | c # cs \<Rightarrow> if c = sq then body_closed cs else sq \<notin> set txt)"

section \<open>The relational source and the graph store\<close>

text \<open>
  What reflection yields for a table (lines 31 to 33): its schema, its name, its columns in
  the order of the table, each with its primary-key flag, and its primary-key constraint.
  \<open>tbl_primary_key\<close> holds the names of the columns of \<^verbatim>\<open>tbl.primary_key.columns\<close> in the
  order the key declares them, which need not be the order of the columns in the table.
  Reflection flags exactly the columns of the constraint, so for a reflected table the two
  hold the same names (\<open>reflected_key\<close>); the script reads the flags at lines 59, 68 and 89
  and the constraint at line 94.
\<close>

record table =
  tbl_schema :: string
  tbl_name :: string
  tbl_columns :: "column list"
  tbl_primary_key :: "string list"

text \<open>One dictionary of \<^verbatim>\<open>inspector.get_foreign_keys\<close>, with the three keys the script reads.\<close>

record foreign_key =
  referred_table :: string
  constrained_columns :: "string list"
  referred_columns :: "string list"

text \<open>
  The relational source as the run reads it: the reflected tables in the order of
  \<^verbatim>\<open>metadata.tables.items()\<close>, the foreign keys the inspector reports for a table name and
  schema, the rows \<^verbatim>\<open>select(tbl)\<close> fetches, and the pairs
  \<^verbatim>\<open>select(fk_col, tbl.c[child_pk])\<close> fetches, by table and the two column names.
\<close>

record source =
  tables :: "table list"
  get_foreign_keys :: "string \<Rightarrow> string \<Rightarrow> foreign_key list"
  select_rows :: "table \<Rightarrow> pyval list list"
  select_pairs :: "table \<Rightarrow> string \<Rightarrow> string \<Rightarrow> (pyval \<times> pyval) list"

text \<open>
  The four statements the script sends with \<^verbatim>\<open>conn.execute\<close> (lines 71, 80, 101 and 113),
  each with the values interpolated into it, and the text each one is.
\<close>

datatype stmt =
    CreateNodeTable string "string list"
  | CreateNode string string
  | CreateRelTable string string string
  | CreateRel string string string pyval string pyval string

fun join :: "string \<Rightarrow> string list \<Rightarrow> string" where
  "join sep [] = []"
| "join sep [x] = x"
| "join sep (x # y # ys) = x @ sep @ join sep (y # ys)"

fun cypher :: "stmt \<Rightarrow> string" where
  "cypher (CreateNodeTable name defs) =
     ''CREATE NODE TABLE IF NOT EXISTS '' @ name @ '' ('' @ join '', '' defs @ '');''"
| "cypher (CreateNode name props) =
     ''CREATE (n:'' @ name @ '' {'' @ props @ ''});''"
| "cypher (CreateRelTable edge parent name) =
     ''CREATE REL TABLE IF NOT EXISTS '' @ edge @ ''(FROM '' @ parent @ '' TO '' @ name @ '');''"
| "cypher (CreateRel parent name parent_pk parent_id child_pk child_id edge) =
     ''MATCH (a:'' @ parent @ ''), (b:'' @ name @ '') '' @
     ''WHERE a.'' @ parent_pk @ '' = '' @ format_val parent_id @ '' '' @
     ''  AND b.'' @ child_pk @ ''  = '' @ format_val child_id @ '' '' @
     ''CREATE (a)-[:'' @ edge @ '']->(b);''"

text \<open>The lines the script prints, and the events of a run in the order they happen.\<close>

datatype message =
    LoadingNodes
  | Skipping string nat
  | CreatedNodeTable string
  | RowsIn nat string
  | InsertedNodes nat string
  | LoadingRelationships
  | InsertedRelationships nat string string

datatype event = Execute stmt | Print message

datatype error = IndexError | KeyError

datatype outcome = Completed | Raised error

section \<open>The Node Loader\<close>

text \<open>Line 59, and the pieces of lines 65 to 70 and 78 to 79.\<close>

definition pk_cols :: "table \<Rightarrow> string list" where
  "pk_cols tbl = map col_name (filter col_primary_key (tbl_columns tbl))"


definition column_def :: "column \<Rightarrow> string" where
  "column_def col =
     col_name col @ '' '' @ infer_type col @ (if col_primary_key col then '' PRIMARY KEY'' else [])"

definition prop_pairs :: "table \<Rightarrow> pyval list \<Rightarrow> string list" where
  "prop_pairs tbl row =
     map (\<lambda>(col, val). col @ '': '' @ format_val val) (zip (map col_name (tbl_columns tbl)) row)"

text \<open>The body of the loop of lines 57 to 81, for one table.\<close>

definition load_node_table :: "source \<Rightarrow> table \<Rightarrow> event list" where
  "load_node_table src tbl =
     (let name = tbl_name tbl in
      if length (pk_cols tbl) \<noteq> 1 then [Print (Skipping name (length (pk_cols tbl)))]
      else
        (let rows = select_rows src tbl in
         [Execute (CreateNodeTable name (map column_def (tbl_columns tbl))),
          Print (CreatedNodeTable name),
          Print (RowsIn (length rows) name)] @
         map (\<lambda>row. Execute (CreateNode name (join '', '' (prop_pairs tbl row)))) rows @
         [Print (InsertedNodes (length rows) name)]))"

fun load_nodes :: "source \<Rightarrow> table list \<Rightarrow> event list" where
  "load_nodes src [] = []"
| "load_nodes src (tbl # tbls) = load_node_table src tbl @ load_nodes src tbls"

section \<open>The Edge Loader\<close>

text \<open>\<^verbatim>\<open>tbl.columns[key]\<close>: the column of that name, or a \<^verbatim>\<open>KeyError\<close>.\<close>

definition lookup_column :: "table \<Rightarrow> string \<Rightarrow> column option" where
  "lookup_column tbl key = find (\<lambda>c. col_name c = key) (tbl_columns tbl)"

text \<open>
  The body of the inner loop, lines 91 to 114, for one foreign key. Every \<^verbatim>\<open>[0]\<close> of the
  source raises \<^verbatim>\<open>IndexError\<close> on an empty list, and the exception ends the run. The child
  key of line 94 is the first column of the primary-key constraint, in the key's own order;
  \<^verbatim>\<open>tbl.c[child_pk]\<close> at line 96 is the column of that name.
\<close>

definition load_foreign_key :: "source \<Rightarrow> table \<Rightarrow> foreign_key \<Rightarrow> event list \<times> outcome" where
  "load_foreign_key src tbl fk =
     (let name = tbl_name tbl; parent = referred_table fk in
      case constrained_columns fk of
        [] \<Rightarrow> ([], Raised IndexError)
      | c # _ \<Rightarrow>
     (case lookup_column tbl c of
        None \<Rightarrow> ([], Raised KeyError)
      | Some fk_col \<Rightarrow>
     (case referred_columns fk of
        [] \<Rightarrow> ([], Raised IndexError)
      | parent_pk # _ \<Rightarrow>
     (case tbl_primary_key tbl of
        [] \<Rightarrow> ([], Raised IndexError)
      | child_pk # _ \<Rightarrow>
     (let pairs = select_pairs src tbl (col_name fk_col) child_pk in
      if pairs = [] then ([], Completed)
      else
        (let edge = parent @ ''_'' @ name @ ''_edge'' in
         ([Execute (CreateRelTable edge parent name)] @
          map (\<lambda>(parent_id, child_id).
                 Execute (CreateRel parent name parent_pk parent_id child_pk child_id edge)) pairs @
          [Print (InsertedRelationships (length pairs) parent name)],
          Completed)))))))"

fun load_foreign_keys :: "source \<Rightarrow> table \<Rightarrow> foreign_key list \<Rightarrow> event list \<times> outcome" where
  "load_foreign_keys src tbl [] = ([], Completed)"
| "load_foreign_keys src tbl (fk # fks) =
     (case load_foreign_key src tbl fk of
        (evs, Raised e) \<Rightarrow> (evs, Raised e)
      | (evs, Completed) \<Rightarrow>
          (case load_foreign_keys src tbl fks of (evs', r) \<Rightarrow> (evs @ evs', r)))"

text \<open>The body of the outer loop, lines 86 to 114, for one table: line 89 comes first.\<close>

definition load_edge_table :: "source \<Rightarrow> table \<Rightarrow> event list \<times> outcome" where
  "load_edge_table src tbl =
     (case pk_cols tbl of
        [] \<Rightarrow> ([], Raised IndexError)
      | pk_col # _ \<Rightarrow>
          load_foreign_keys src tbl (get_foreign_keys src (tbl_name tbl) (tbl_schema tbl)))"

fun load_edges :: "source \<Rightarrow> table list \<Rightarrow> event list \<times> outcome" where
  "load_edges src [] = ([], Completed)"
| "load_edges src (tbl # tbls) =
     (case load_edge_table src tbl of
        (evs, Raised e) \<Rightarrow> (evs, Raised e)
      | (evs, Completed) \<Rightarrow>
          (case load_edges src tbls of (evs', r) \<Rightarrow> (evs @ evs', r)))"

section \<open>The run\<close>

text \<open>
  Steps 4 and 5 of the script, one after the other over the same reflected tables. The
  verification and the cleanup that follow (steps 6 and 7) read the store back and are
  reached only when step 5 completes.
\<close>

definition run :: "source \<Rightarrow> event list \<times> outcome" where
  "run src =
     (case load_edges src (tables src) of
        (evs, r) \<Rightarrow>
          (Print LoadingNodes # load_nodes src (tables src) @ Print LoadingRelationships # evs, r))"

text \<open>The statements of a trace, and which phase a statement belongs to.\<close>

fun executed :: "event list \<Rightarrow> stmt list" where
  "executed [] = []"
| "executed (Execute s # evs) = s # executed evs"
| "executed (Print m # evs) = executed evs"

fun is_node_stmt :: "stmt \<Rightarrow> bool" where
  "is_node_stmt (CreateNodeTable name defs) = True"
| "is_node_stmt (CreateNode name props) = True"
| "is_node_stmt s = False"

fun is_edge_stmt :: "stmt \<Rightarrow> bool" where
  "is_edge_stmt (CreateRelTable edge parent name) = True"
| "is_edge_stmt (CreateRel parent name parent_pk parent_id child_pk child_id edge) = True"
| "is_edge_stmt s = False"

section \<open>Reading a decimal literal back\<close>

text \<open>
  The specification asks that re-parsing a serialized number gives back the value. The reader
  below follows the grammar and the construction of \<^verbatim>\<open>decimal.Decimal(text)\<close> for finite
  numbers: an optional sign, digits with an optional point (at least one digit in all), an
  optional exponent \<^verbatim>\<open>E\<close> with an optional sign; the coefficient is
  \<^verbatim>\<open>str(int(intpart + fracpart))\<close> and the exponent is the written one less the number of
  fraction digits. Surrounding blanks, underscores and the spellings of infinity and NaN, which
  the constructor also accepts, are left out: the result is \<open>None\<close> for them.
\<close>

definition is_digit :: "char \<Rightarrow> bool" where
  "is_digit c = (c \<in> set ''0123456789'')"

definition digit_val :: "char \<Rightarrow> nat" where
  "digit_val c = length (takeWhile (\<lambda>d. d \<noteq> c) ''0123456789'')"

text \<open>\<^verbatim>\<open>int(text)\<close> for a text of digits, and for an exponent with its optional sign.\<close>

definition nat_of_digits :: "string \<Rightarrow> nat" where
  "nat_of_digits ds = foldl (\<lambda>a c. 10 * a + digit_val c) 0 ds"

definition parse_int :: "string \<Rightarrow> int option" where
  "parse_int txt =
     (let (neg, ds) = (case txt of
                         [] \<Rightarrow> (False, [])
                       | c # cs \<Rightarrow> if c = CHR ''-'' then (True, cs)
                                   else if c = CHR ''+'' then (False, cs) else (False, txt))
      in if ds = [] \<or> \<not> list_all is_digit ds then None
         else Some (if neg then - int (nat_of_digits ds) else int (nat_of_digits ds)))"

definition parse_Decimal :: "string \<Rightarrow> Decimal option" where
  "parse_Decimal txt =
     (let (neg, r1) = (case txt of
                         [] \<Rightarrow> (False, [])
                       | c # cs \<Rightarrow> if c = CHR ''-'' then (True, cs)
                                   else if c = CHR ''+'' then (False, cs) else (False, txt));
          intpart = takeWhile is_digit r1;
          r2 = dropWhile is_digit r1;
          (fracpart, r3) = (case r2 of
                              [] \<Rightarrow> ([], [])
                            | c # cs \<Rightarrow> if c = CHR ''.''
                                        then (takeWhile is_digit cs, dropWhile is_digit cs)
                                        else ([], r2));
          exp = (case r3 of
                   [] \<Rightarrow> Some 0
                 | c # cs \<Rightarrow> if c = CHR ''E'' \<or> c = CHR ''e'' then parse_int cs else None)
      in if intpart = [] \<and> fracpart = [] then None
         else (case exp of
                 None \<Rightarrow> None
               | Some e \<Rightarrow>
                   Some \<lparr>d_sign = neg,
                         d_int = str_nat (nat_of_digits (intpart @ fracpart)),
                         d_exp = Exp (e - int (length fracpart))\<rparr>))"

text \<open>
  The coefficient of a finite \<^verbatim>\<open>Decimal\<close> is the text of a natural number: digits, at least
  one, and no leading zero unless the text is \<^verbatim>\<open>0\<close> itself.
\<close>

definition canonical_digits :: "string \<Rightarrow> bool" where
  "canonical_digits ds =
     (ds \<noteq> [] \<and> list_all is_digit ds \<and> (ds = ''0'' \<or> hd ds \<noteq> CHR ''0''))"

section \<open>Reading serialized values back\<close>















text \<open>The node type a node statement creates or populates.\<close>

fun node_label :: "stmt \<Rightarrow> string option" where
  "node_label (CreateNodeTable name defs) = Some name"
| "node_label (CreateNode name props) = Some name"
| "node_label s = None"


section \<open>Example sources\<close>

text \<open>
  The end-to-end scenario of the specification (section 8): \<^verbatim>\<open>customers\<close> with two rows and
  \<^verbatim>\<open>orders\<close> with one row and a foreign key to \<^verbatim>\<open>customers\<close>. Two more tables serve as further
  inputs: \<^verbatim>\<open>audit_log\<close> has no primary key, \<^verbatim>\<open>regions\<close> has a two-column primary key, and
  \<^verbatim>\<open>offices\<close> has a two-column foreign key to the primary key of \<^verbatim>\<open>regions\<close>;
  \<^verbatim>\<open>shipments\<close> has two foreign keys, to \<^verbatim>\<open>orders\<close> and to \<^verbatim>\<open>customers\<close>; \<^verbatim>\<open>memberships\<close> has
  the columns \<^verbatim>\<open>user_id\<close>, \<^verbatim>\<open>group_id\<close>, \<^verbatim>\<open>role\<close> and the primary key
  \<^verbatim>\<open>PRIMARY KEY (group_id, user_id)\<close>, declared in the other order; \<^verbatim>\<open>logins\<close> has a foreign
  key to the column \<^verbatim>\<open>email\<close> of \<^verbatim>\<open>accounts\<close>, which is unique but is not its primary key.
\<close>

definition customers :: table where
  "customers = \<lparr>tbl_schema = ''compliance'', tbl_name = ''customers'', tbl_columns =
     [\<lparr>col_name = ''id'', col_type = Integer, col_primary_key = True\<rparr>,
      \<lparr>col_name = ''name'', col_type = Text, col_primary_key = False\<rparr>,
      \<lparr>col_name = ''joined'', col_type = Date, col_primary_key = False\<rparr>],
     tbl_primary_key = [''id'']\<rparr>"

definition orders :: table where
  "orders = \<lparr>tbl_schema = ''compliance'', tbl_name = ''orders'', tbl_columns =
     [\<lparr>col_name = ''id'', col_type = Integer, col_primary_key = True\<rparr>,
      \<lparr>col_name = ''customer_id'', col_type = Integer, col_primary_key = False\<rparr>,
      \<lparr>col_name = ''total'', col_type = Numeric, col_primary_key = False\<rparr>],
     tbl_primary_key = [''id'']\<rparr>"

definition audit_log :: table where
  "audit_log = \<lparr>tbl_schema = ''compliance'', tbl_name = ''audit_log'', tbl_columns =
     [\<lparr>col_name = ''note'', col_type = Text, col_primary_key = False\<rparr>],
     tbl_primary_key = []\<rparr>"

definition regions :: table where
  "regions = \<lparr>tbl_schema = ''compliance'', tbl_name = ''regions'', tbl_columns =
     [\<lparr>col_name = ''country'', col_type = Integer, col_primary_key = True\<rparr>,
      \<lparr>col_name = ''code'', col_type = Integer, col_primary_key = True\<rparr>],
     tbl_primary_key = [''country'', ''code'']\<rparr>"

definition offices :: table where
  "offices = \<lparr>tbl_schema = ''compliance'', tbl_name = ''offices'', tbl_columns =
     [\<lparr>col_name = ''id'', col_type = Integer, col_primary_key = True\<rparr>,
      \<lparr>col_name = ''country'', col_type = Integer, col_primary_key = False\<rparr>,
      \<lparr>col_name = ''region_code'', col_type = Integer, col_primary_key = False\<rparr>],
     tbl_primary_key = [''id'']\<rparr>"

definition shipments :: table where
  "shipments = \<lparr>tbl_schema = ''compliance'', tbl_name = ''shipments'', tbl_columns =
     [\<lparr>col_name = ''id'', col_type = Integer, col_primary_key = True\<rparr>,
      \<lparr>col_name = ''order_id'', col_type = Integer, col_primary_key = False\<rparr>,
      \<lparr>col_name = ''customer_id'', col_type = Integer, col_primary_key = False\<rparr>],
     tbl_primary_key = [''id'']\<rparr>"

definition memberships :: table where
  "memberships = \<lparr>tbl_schema = ''compliance'', tbl_name = ''memberships'', tbl_columns =
     [\<lparr>col_name = ''user_id'', col_type = Integer, col_primary_key = True\<rparr>,
      \<lparr>col_name = ''group_id'', col_type = Integer, col_primary_key = True\<rparr>,
      \<lparr>col_name = ''role'', col_type = Text, col_primary_key = False\<rparr>],
     tbl_primary_key = [''group_id'', ''user_id'']\<rparr>"

definition accounts :: table where
  "accounts = \<lparr>tbl_schema = ''compliance'', tbl_name = ''accounts'', tbl_columns =
     [\<lparr>col_name = ''id'', col_type = Integer, col_primary_key = True\<rparr>,
      \<lparr>col_name = ''email'', col_type = Text, col_primary_key = False\<rparr>],
     tbl_primary_key = [''id'']\<rparr>"

definition logins :: table where
  "logins = \<lparr>tbl_schema = ''compliance'', tbl_name = ''logins'', tbl_columns =
     [\<lparr>col_name = ''id'', col_type = Integer, col_primary_key = True\<rparr>,
      \<lparr>col_name = ''account_email'', col_type = Text, col_primary_key = False\<rparr>],
     tbl_primary_key = [''id'']\<rparr>"

definition orders_customer_fk :: foreign_key where
  "orders_customer_fk =
     \<lparr>referred_table = ''customers'', constrained_columns = [''customer_id''],
      referred_columns = [''id'']\<rparr>"

definition offices_region_fk :: foreign_key where
  "offices_region_fk =
     \<lparr>referred_table = ''regions'', constrained_columns = [''country'', ''region_code''],
      referred_columns = [''country'', ''code'']\<rparr>"

definition shipments_order_fk :: foreign_key where
  "shipments_order_fk =
     \<lparr>referred_table = ''orders'', constrained_columns = [''order_id''],
      referred_columns = [''id'']\<rparr>"

definition shipments_customer_fk :: foreign_key where
  "shipments_customer_fk =
     \<lparr>referred_table = ''customers'', constrained_columns = [''customer_id''],
      referred_columns = [''id'']\<rparr>"

definition memberships_customer_fk :: foreign_key where
  "memberships_customer_fk =
     \<lparr>referred_table = ''customers'', constrained_columns = [''user_id''],
      referred_columns = [''id'']\<rparr>"

definition logins_account_fk :: foreign_key where
  "logins_account_fk =
     \<lparr>referred_table = ''accounts'', constrained_columns = [''account_email''],
      referred_columns = [''email'']\<rparr>"

definition shop_rows :: "table \<Rightarrow> pyval list list" where
  "shop_rows tbl =
     (if tbl_name tbl = ''customers'' then
        [[PInt 1, PStr ''Alice'', PDate \<lparr>year = 2020, month = 1, day = 1\<rparr>],
         [PInt 2, PStr (''O'' @ [sq] @ ''Brien''), PDate \<lparr>year = 2021, month = 6, day = 15\<rparr>]]
      else if tbl_name tbl = ''orders'' then
        [[PInt 1, PInt 1, PDecimal \<lparr>d_sign = False, d_int = ''1999'', d_exp = Exp (- 2)\<rparr>]]
      else if tbl_name tbl = ''offices'' then [[PInt 5, PInt 44, PInt 7]]
      else if tbl_name tbl = ''shipments'' then [[PInt 10, PInt 1, PInt 2], [PInt 11, PInt 1, PInt 1]]
      else if tbl_name tbl = ''memberships'' then [[PInt 2, PInt 9, PStr ''admin'']]
      else if tbl_name tbl = ''accounts'' then [[PInt 7, PStr ''a@x.org'']]
      else if tbl_name tbl = ''logins'' then [[PInt 1, PStr ''a@x.org'']]
      else [])"

definition shop_pairs :: "table \<Rightarrow> string \<Rightarrow> string \<Rightarrow> (pyval \<times> pyval) list" where
  "shop_pairs tbl fk_col child_pk =
     (if tbl_name tbl = ''orders'' \<and> fk_col = ''customer_id'' \<and> child_pk = ''id''
        then [(PInt 1, PInt 1)]
      else if tbl_name tbl = ''offices'' \<and> fk_col = ''country'' \<and> child_pk = ''id''
        then [(PInt 44, PInt 5)]
      else if tbl_name tbl = ''shipments'' \<and> fk_col = ''order_id'' \<and> child_pk = ''id''
        then [(PInt 1, PInt 10), (PInt 1, PInt 11)]
      else if tbl_name tbl = ''shipments'' \<and> fk_col = ''customer_id'' \<and> child_pk = ''id''
        then [(PInt 2, PInt 10), (PInt 1, PInt 11)]
      else if tbl_name tbl = ''memberships'' \<and> fk_col = ''user_id'' \<and> child_pk = ''group_id''
        then [(PInt 2, PInt 9)]
      else if tbl_name tbl = ''memberships'' \<and> fk_col = ''user_id'' \<and> child_pk = ''user_id''
        then [(PInt 2, PInt 2)]
      else if tbl_name tbl = ''logins'' \<and> fk_col = ''account_email'' \<and> child_pk = ''id''
        then [(PStr ''a@x.org'', PInt 1)]
      else [])"

definition shop_foreign_keys :: "string \<Rightarrow> string \<Rightarrow> foreign_key list" where
  "shop_foreign_keys name schema =
     (if name = ''orders'' then [orders_customer_fk]
      else if name = ''offices'' then [offices_region_fk]
      else if name = ''shipments'' then [shipments_order_fk, shipments_customer_fk]
      else if name = ''memberships'' then [memberships_customer_fk]
      else if name = ''logins'' then [logins_account_fk]
      else [])"

definition shop :: "table list \<Rightarrow> source" where
  "shop tbls = \<lparr>tables = tbls, get_foreign_keys = shop_foreign_keys,
                select_rows = shop_rows, select_pairs = shop_pairs\<rparr>"

section \<open>Type Mapper: results\<close>

lemma infer_type_range:
  "infer_type col = ''INT'' \<or> infer_type col = ''DOUBLE'' \<or>
   infer_type col = ''TIMESTAMP'' \<or> infer_type col = ''STRING''"
  by (simp add: infer_type_def)

text \<open>
  Claim C1, as the code has it. The Type Mapper is total and returns exactly one of the
  four names \<^verbatim>\<open>INT\<close>, \<^verbatim>\<open>DOUBLE\<close>, \<^verbatim>\<open>TIMESTAMP\<close>, \<^verbatim>\<open>STRING\<close>: a type that is an instance of
  \<^verbatim>\<open>Integer\<close> maps to \<^verbatim>\<open>INT\<close>, an instance of \<^verbatim>\<open>Float\<close> to \<^verbatim>\<open>DOUBLE\<close>, an instance of
  \<^verbatim>\<open>DateTime\<close> to \<^verbatim>\<open>TIMESTAMP\<close>, and a type that is an instance of none of the three to
  \<^verbatim>\<open>STRING\<close>.
\<close>

theorem infer_type_by_class:
  "(infer_type col = ''INT'' \<or> infer_type col = ''DOUBLE'' \<or>
    infer_type col = ''TIMESTAMP'' \<or> infer_type col = ''STRING'') \<and>
   (isinstance (col_type col) Integer \<longrightarrow> infer_type col = ''INT'') \<and>
   (isinstance (col_type col) Float \<longrightarrow> infer_type col = ''DOUBLE'') \<and>
   (isinstance (col_type col) DateTime \<longrightarrow> infer_type col = ''TIMESTAMP'') \<and>
   (\<not> isinstance (col_type col) Integer \<and> \<not> isinstance (col_type col) Float \<and>
    \<not> isinstance (col_type col) DateTime \<longrightarrow> infer_type col = ''STRING'')"
  by (cases "col_type col") (simp_all add: infer_type_def isinstance_def)

theorem infer_type_by_class_witness:
  "isinstance BigInteger Integer \<and>
   infer_type \<lparr>col_name = ''id'', col_type = BigInteger, col_primary_key = True\<rparr> = ''INT'' \<and>
   isinstance Double Float \<and>
   infer_type \<lparr>col_name = ''score'', col_type = Double, col_primary_key = False\<rparr> = ''DOUBLE'' \<and>
   isinstance DateTime DateTime \<and>
   infer_type \<lparr>col_name = ''created'', col_type = DateTime, col_primary_key = False\<rparr> = ''TIMESTAMP'' \<and>
   \<not> isinstance Text Integer \<and> \<not> isinstance Text Float \<and> \<not> isinstance Text DateTime \<and>
   infer_type \<lparr>col_name = ''body'', col_type = Text, col_primary_key = False\<rparr> = ''STRING''"
  using infer_type_by_class [of "\<lparr>col_name = ''id'', col_type = BigInteger, col_primary_key = True\<rparr>"]
        infer_type_by_class [of "\<lparr>col_name = ''score'', col_type = Double, col_primary_key = False\<rparr>"]
        infer_type_by_class [of "\<lparr>col_name = ''created'', col_type = DateTime, col_primary_key = False\<rparr>"]
        infer_type_by_class [of "\<lparr>col_name = ''body'', col_type = Text, col_primary_key = False\<rparr>"]
  by (simp add: isinstance_def)

text \<open>
  Claim C1 as the specification states it fails on three columns: an \<^verbatim>\<open>Integer\<close> column
  maps to \<^verbatim>\<open>INT\<close>, not to \<^verbatim>\<open>INTEGER\<close>; a \<^verbatim>\<open>Numeric\<close> (decimal) column and a \<^verbatim>\<open>Date\<close> column
  both map to \<^verbatim>\<open>STRING\<close>, where the families of the specification give \<^verbatim>\<open>DOUBLE\<close> and
  \<^verbatim>\<open>TIMESTAMP\<close>.
\<close>

theorem infer_type_families_counterexample:
  "infer_type \<lparr>col_name = ''id'', col_type = Integer, col_primary_key = True\<rparr> = ''INT'' \<and>
   spec_primitive (family_of Integer) = ''INTEGER'' \<and>
   infer_type \<lparr>col_name = ''total'', col_type = Numeric, col_primary_key = False\<rparr> = ''STRING'' \<and>
   spec_primitive (family_of Numeric) = ''DOUBLE'' \<and>
   infer_type \<lparr>col_name = ''joined'', col_type = Date, col_primary_key = False\<rparr> = ''STRING'' \<and>
   spec_primitive (family_of Date) = ''TIMESTAMP''"
  by (simp add: infer_type_def isinstance_def)

section \<open>Value Serializer: results\<close>



lemma format_val_int: "format_val (PInt i) = str_int i"
  by (simp add: format_val_def isinstance_val_def)


lemma format_val_Decimal: "format_val (PDecimal d) = str_Decimal d"
  by (simp add: format_val_def isinstance_val_def)

lemma format_val_date: "format_val (PDate d) = [sq] @ date_isoformat d @ [sq]"
  by (simp add: format_val_def isinstance_val_def)


lemma format_val_str: "format_val (PStr s) = [sq] @ replace_char sq [bs, sq] s @ [sq]"
  by (simp add: format_val_def isinstance_val_def)





lemma digit_char_range: "digit_char d \<in> set ''0123456789''"
proof -
  have "d mod 10 < length ''0123456789''" by simp
  then show ?thesis unfolding digit_char_def by (rule nth_mem)
qed

lemma str_nat_digits: "set (str_nat n) \<subseteq> set ''0123456789''"
proof (induction n rule: str_nat.induct)
  case (1 n)
  show ?case
  proof (cases "n < 10")
    case True
    then have "str_nat n = [digit_char n]" by (simp add: str_nat.simps)
    then show ?thesis using digit_char_range [of n] by simp
  next
    case False
    then have "str_nat n = str_nat (n div 10) @ [digit_char (n mod 10)]"
      by (subst str_nat.simps) simp
    then show ?thesis using 1 False digit_char_range [of "n mod 10"] by simp
  qed
qed


text \<open>
  Claim C4 on the code, at a string that is one backslash and at a string that is a
  backslash followed by a quote: \<^verbatim>\<open>format_val\<close> escapes quotes only, never the backslash, so the
  first literal's closing quote is escaped by the value's own backslash and the literal never
  ends, and in the second the inserted backslash is itself escaped, so the quote after it ends
  the literal early and a stray quote follows.
\<close>

theorem format_val_backslash_unclosed:
  "format_val (PStr [bs]) = [sq, bs, sq] \<and> \<not> closed_literal (format_val (PStr [bs])) \<and>
   format_val (PStr [bs, sq]) = [sq, bs, bs, sq, sq] \<and>
   \<not> closed_literal (format_val (PStr [bs, sq]))"
  by (simp add: format_val_str closed_literal_def)

text \<open>Where the value holds no backslash, the literal of a string is closed.\<close>

lemma body_closed_escaped:
  "bs \<notin> set s \<Longrightarrow> body_closed (replace_char sq [bs, sq] s @ [sq])"
proof (induction s)
  case Nil
  show ?case by simp
next
  case (Cons c cs)
  then have ih: "body_closed (replace_char sq [bs, sq] cs @ [sq])" and c: "c \<noteq> bs" by auto
  show ?case
  proof (cases "c = sq")
    case True
    with ih show ?thesis by simp
  next
    case False
    obtain d ds where "replace_char sq [bs, sq] cs @ [sq] = d # ds"
      by (cases "replace_char sq [bs, sq] cs @ [sq]") auto
    with ih False c show ?thesis by simp
  qed
qed

lemma format_val_closed_without_backslash:
  "bs \<notin> set s \<Longrightarrow> closed_literal (format_val (PStr s))"
  by (simp add: format_val_str closed_literal_def body_closed_escaped)

section \<open>Decimal text: results\<close>

lemma is_digit_cases:
  "is_digit c \<longleftrightarrow>
     c = CHR ''0'' \<or> c = CHR ''1'' \<or> c = CHR ''2'' \<or> c = CHR ''3'' \<or> c = CHR ''4'' \<or>
     c = CHR ''5'' \<or> c = CHR ''6'' \<or> c = CHR ''7'' \<or> c = CHR ''8'' \<or> c = CHR ''9''"
  by (auto simp: is_digit_def)

lemma not_digit_marks:
  "\<not> is_digit (CHR ''.'')" "\<not> is_digit (CHR ''E'')" "\<not> is_digit (CHR ''-'')"
  "\<not> is_digit (CHR ''+'')"
  by (simp_all add: is_digit_def)

lemma is_digit_digit_char: "is_digit (digit_char k)"
  using digit_char_range [of k] by (simp add: is_digit_def)

lemma digit_val_digit_char: "k < 10 \<Longrightarrow> digit_val (digit_char k) = k"
proof -
  assume "k < 10"
  then have "k \<in> {0, 1, 2, 3, 4, 5, 6, 7, 8, 9}" by auto
  then show ?thesis by (auto simp: digit_char_def digit_val_def)
qed

lemma digit_val_less: "is_digit c \<Longrightarrow> digit_val c < 10"
  by (auto simp: is_digit_cases digit_val_def)

lemma digit_char_digit_val: "is_digit c \<Longrightarrow> digit_char (digit_val c) = c"
  by (auto simp: is_digit_cases digit_val_def digit_char_def)

lemma digit_val_zero: "is_digit c \<Longrightarrow> digit_val c = 0 \<Longrightarrow> c = CHR ''0''"
  by (auto simp: is_digit_cases digit_val_def)

lemma str_nat_small: "n < 10 \<Longrightarrow> str_nat n = [digit_char n]"
  by (simp add: str_nat.simps)

lemma str_nat_large: "\<not> n < 10 \<Longrightarrow> str_nat n = str_nat (n div 10) @ [digit_char (n mod 10)]"
  by (subst str_nat.simps) simp

lemma str_nat_all_digits: "list_all is_digit (str_nat n)"
  unfolding list_all_iff is_digit_def using str_nat_digits [of n] by blast

lemma str_nat_not_Nil: "str_nat n \<noteq> []"
  by (cases "n < 10") (simp_all add: str_nat_small str_nat_large)

lemma nat_of_digits_snoc: "nat_of_digits (ds @ [c]) = 10 * nat_of_digits ds + digit_val c"
  by (simp add: nat_of_digits_def)

lemma nat_of_digits_str_nat: "nat_of_digits (str_nat n) = n"
proof (induction n rule: str_nat.induct)
  case (1 n)
  show ?case
  proof (cases "n < 10")
    case True
    then show ?thesis
      using nat_of_digits_snoc [of "[]" "digit_char n"]
      by (simp add: str_nat_small digit_val_digit_char nat_of_digits_def)
  next
    case False
    with 1 have "nat_of_digits (str_nat (n div 10)) = n div 10" by simp
    with False show ?thesis
      by (simp add: str_nat_large nat_of_digits_snoc digit_val_digit_char)
  qed
qed

lemma foldl_zeros:
  "foldl (\<lambda>a c. 10 * a + digit_val c) 0 (replicate k (CHR ''0'')) = 0"
  by (induction k) (simp_all add: digit_val_def)

lemma nat_of_digits_leading_zeros:
  "nat_of_digits (replicate k (CHR ''0'') @ ds) = nat_of_digits ds"
  by (simp add: nat_of_digits_def foldl_zeros)

lemma nat_of_digits_leading_zero: "nat_of_digits (CHR ''0'' # ds) = nat_of_digits ds"
  using nat_of_digits_leading_zeros [of 1 ds] by simp

lemma str_nat_of_digits_nonzero:
  "ds \<noteq> [] \<Longrightarrow> list_all is_digit ds \<Longrightarrow> hd ds \<noteq> CHR ''0'' \<Longrightarrow>
   str_nat (nat_of_digits ds) = ds \<and> 1 \<le> nat_of_digits ds"
proof (induction ds rule: rev_induct)
  case Nil
  then show ?case by simp
next
  case (snoc c xs)
  from snoc.prems have c: "is_digit c" by simp
  then have v: "digit_val c < 10" by (rule digit_val_less)
  show ?case
  proof (cases "xs = []")
    case True
    with snoc.prems have "c \<noteq> CHR ''0''" by simp
    with c have "digit_val c \<noteq> 0" using digit_val_zero by blast
    with True c v show ?thesis
      by (simp add: nat_of_digits_def str_nat_small digit_char_digit_val)
  next
    case False
    with snoc have ih: "str_nat (nat_of_digits xs) = xs" "1 \<le> nat_of_digits xs" by simp_all
    let ?n = "10 * nat_of_digits xs + digit_val c"
    from ih(2) have big: "\<not> ?n < 10" by simp
    from v have "?n div 10 = nat_of_digits xs" "?n mod 10 = digit_val c" by simp_all
    with big ih c show ?thesis
      by (simp add: nat_of_digits_snoc str_nat_large digit_char_digit_val)
  qed
qed

lemma str_nat_of_canonical: "canonical_digits ds \<Longrightarrow> str_nat (nat_of_digits ds) = ds"
proof -
  assume a: "canonical_digits ds"
  show ?thesis
  proof (cases "ds = ''0''")
    case True
    then show ?thesis by (simp add: nat_of_digits_def digit_val_def str_nat_small digit_char_def)
  next
    case False
    with a show ?thesis using str_nat_of_digits_nonzero [of ds] by (simp add: canonical_digits_def)
  qed
qed

lemma takeWhile_digits_stop:
  "list_all is_digit ds \<Longrightarrow> \<not> is_digit c \<Longrightarrow> takeWhile is_digit (ds @ c # r) = ds"
  by (induction ds) simp_all

lemma dropWhile_digits_stop:
  "list_all is_digit ds \<Longrightarrow> \<not> is_digit c \<Longrightarrow> dropWhile is_digit (ds @ c # r) = c # r"
  by (induction ds) simp_all

lemma takeWhile_digits_all: "list_all is_digit ds \<Longrightarrow> takeWhile is_digit ds = ds"
  by (simp add: list_all_iff)

lemma dropWhile_digits_all: "list_all is_digit ds \<Longrightarrow> dropWhile is_digit ds = []"
  by (simp add: list_all_iff)

lemma parse_int_str_signed: "parse_int (str_signed i) = Some i"
  by (simp add: parse_int_def str_signed_def str_nat_not_Nil str_nat_all_digits
        nat_of_digits_str_nat)

lemma digit_not_sign: "is_digit a \<Longrightarrow> a \<noteq> CHR ''-'' \<and> a \<noteq> CHR ''+''"
  using not_digit_marks by blast

lemma parse_Decimal_shape:
  assumes "ip = a # as" "list_all is_digit ip"
    and "case fr of None \<Rightarrow> True | Some fp \<Rightarrow> list_all is_digit fp"
  shows "parse_Decimal ((if neg then ''-'' else []) @ ip @
            (case fr of None \<Rightarrow> [] | Some fp \<Rightarrow> CHR ''.'' # fp) @
            (case ex of None \<Rightarrow> [] | Some x \<Rightarrow> CHR ''E'' # str_signed x)) =
         Some \<lparr>d_sign = neg,
               d_int = str_nat (nat_of_digits (ip @ (case fr of None \<Rightarrow> [] | Some fp \<Rightarrow> fp))),
               d_exp = Exp ((case ex of None \<Rightarrow> 0 | Some x \<Rightarrow> x) -
                            int (length (case fr of None \<Rightarrow> [] | Some fp \<Rightarrow> fp)))\<rparr>"
proof -
  from assms(1,2) have a: "is_digit a" "list_all is_digit as" by simp_all
  then have s: "a \<noteq> CHR ''-''" "a \<noteq> CHR ''+''" using digit_not_sign by blast+
  note marks = not_digit_marks
  show ?thesis
  proof (cases fr)
    case None
    show ?thesis
    proof (cases ex)
      case N: None
      with None assms(1) a s show ?thesis
        by (simp add: parse_Decimal_def takeWhile_digits_all dropWhile_digits_all)
    next
      case (Some x)
      with None assms(1) a s marks show ?thesis
        by (simp add: parse_Decimal_def takeWhile_digits_stop dropWhile_digits_stop
              parse_int_str_signed)
    qed
  next
    case F: (Some fp)
    with assms(3) have fp: "list_all is_digit fp" by simp
    show ?thesis
    proof (cases ex)
      case None
      with F fp assms(1) a s marks show ?thesis
        by (simp add: parse_Decimal_def takeWhile_digits_stop dropWhile_digits_stop
              takeWhile_digits_all dropWhile_digits_all)
    next
      case (Some x)
      with F fp assms(1) a s marks show ?thesis
        by (simp add: parse_Decimal_def takeWhile_digits_stop dropWhile_digits_stop
              parse_int_str_signed)
    qed
  qed
qed

lemma canonical_digits_Cons:
  "canonical_digits ds \<Longrightarrow> \<exists>a as. ds = a # as \<and> is_digit a \<and> list_all is_digit as"
  by (cases ds) (simp_all add: canonical_digits_def)

lemma Decimal_eqI:
  "d_sign d = s \<Longrightarrow> d_int d = i \<Longrightarrow> d_exp d = x \<Longrightarrow>
   (d :: Decimal) = \<lparr>d_sign = s, d_int = i, d_exp = x\<rparr>"
  by (cases d) simp

lemma str_Decimal_integer:
  assumes "d_exp d = Exp 0" "d_int d \<noteq> []"
  shows "str_Decimal d = (if d_sign d then ''-'' else []) @ d_int d"
  using assms by (simp add: str_Decimal_def Let_def)

lemma str_Decimal_small:
  assumes "d_exp d = Exp e" "e \<le> 0" "- 6 < e + int (length (d_int d))"
    "e + int (length (d_int d)) \<le> 0"
  shows "str_Decimal d = (if d_sign d then ''-'' else []) @ ''0'' @
           CHR ''.'' # (replicate (nat (- (e + int (length (d_int d))))) (CHR ''0'') @ d_int d)"
  using assms by (simp add: str_Decimal_def Let_def)

lemma str_Decimal_point:
  assumes "d_exp d = Exp e" "e < 0" "0 < e + int (length (d_int d))"
  shows "str_Decimal d = (if d_sign d then ''-'' else []) @
           take (nat (e + int (length (d_int d)))) (d_int d) @
           CHR ''.'' # drop (nat (e + int (length (d_int d)))) (d_int d)"
  using assms by (simp add: str_Decimal_def Let_def)

lemma str_Decimal_sci_one:
  assumes "d_exp d = Exp e" "\<not> (e \<le> 0 \<and> - 6 < e + int (length (d_int d)))"
    "length (d_int d) = 1"
  shows "str_Decimal d = (if d_sign d then ''-'' else []) @ d_int d @
           CHR ''E'' # str_signed e"
  using assms by (auto simp: str_Decimal_def Let_def)

lemma str_Decimal_sci_many:
  assumes "d_exp d = Exp e" "\<not> (e \<le> 0 \<and> - 6 < e + int (length (d_int d)))"
    "1 < length (d_int d)"
  shows "str_Decimal d = (if d_sign d then ''-'' else []) @ take 1 (d_int d) @
           (CHR ''.'' # drop 1 (d_int d)) @
           CHR ''E'' # str_signed (e + int (length (d_int d)) - 1)"
  using assms by (auto simp: str_Decimal_def Let_def)

lemma E_not_in_digits: "list_all is_digit ds \<Longrightarrow> CHR ''E'' \<notin> set ds"
  using not_digit_marks(2) by (auto simp: list_all_iff)

lemma zeros_all_digits: "list_all is_digit (replicate k (CHR ''0''))"
  by (induction k) (simp_all add: is_digit_def)

lemma round_trip_integer:
  assumes "d_exp d = Exp 0" "canonical_digits (d_int d)"
  shows "parse_Decimal (str_Decimal d) = Some d"
proof -
  from assms(2) obtain a as where c: "d_int d = a # as" "list_all is_digit (d_int d)"
    by (cases "d_int d") (simp_all add: canonical_digits_def)
  have "parse_Decimal (str_Decimal d) =
        Some \<lparr>d_sign = d_sign d, d_int = str_nat (nat_of_digits (d_int d)), d_exp = Exp 0\<rparr>"
    using parse_Decimal_shape [OF c, of None "d_sign d" None] assms(1) c(1)
    by (simp add: str_Decimal_integer)
  also have "\<dots> = Some d"
    using assms by (simp add: str_nat_of_canonical Decimal_eqI [symmetric])
  finally show ?thesis .
qed

lemma round_trip_small:
  assumes "d_exp d = Exp e" "canonical_digits (d_int d)" "e \<le> 0"
    "- 6 < e + int (length (d_int d))" "e + int (length (d_int d)) \<le> 0"
  shows "parse_Decimal (str_Decimal d) = Some d"
proof -
  let ?k = "nat (- (e + int (length (d_int d))))"
  let ?fp = "replicate ?k (CHR ''0'') @ d_int d"
  from assms(2) have dg: "list_all is_digit (d_int d)" by (simp add: canonical_digits_def)
  have z: "''0'' = CHR ''0'' # []" "list_all is_digit ''0''" by (simp_all add: is_digit_def)
  have fp: "case Some ?fp of None \<Rightarrow> True | Some fp \<Rightarrow> list_all is_digit fp"
    using dg zeros_all_digits [of ?k] by simp
  have "parse_Decimal (str_Decimal d) =
        Some \<lparr>d_sign = d_sign d, d_int = str_nat (nat_of_digits (''0'' @ ?fp)),
              d_exp = Exp (0 - int (length ?fp))\<rparr>"
    using parse_Decimal_shape [OF z fp, of "d_sign d" None] str_Decimal_small [OF assms(1,3,4,5)]
    by simp
  also have "nat_of_digits (''0'' @ ?fp) = nat_of_digits (d_int d)"
    using nat_of_digits_leading_zeros [of "Suc ?k" "d_int d"] by simp
  also have "0 - int (length ?fp) = e" using assms(5) by simp
  finally show ?thesis
    using assms(1,2) by (simp add: str_nat_of_canonical Decimal_eqI [symmetric])
qed

lemma round_trip_point:
  assumes "d_exp d = Exp e" "canonical_digits (d_int d)" "e < 0"
    "0 < e + int (length (d_int d))"
  shows "parse_Decimal (str_Decimal d) = Some d"
proof -
  let ?m = "nat (e + int (length (d_int d)))"
  from assms(2) have dg: "list_all is_digit (d_int d)" by (simp add: canonical_digits_def)
  from assms(3,4) have m: "0 < ?m" "?m < length (d_int d)" by simp_all
  then obtain a as where ip: "take ?m (d_int d) = a # as"
    by (cases "take ?m (d_int d)") auto
  have ipd: "list_all is_digit (take ?m (d_int d))"
    using dg by (auto simp: list_all_iff dest: in_set_takeD)
  have fp: "case Some (drop ?m (d_int d)) of None \<Rightarrow> True | Some fp \<Rightarrow> list_all is_digit fp"
    using dg by (auto simp: list_all_iff dest: in_set_dropD)
  have "parse_Decimal (str_Decimal d) =
        Some \<lparr>d_sign = d_sign d,
              d_int = str_nat (nat_of_digits (take ?m (d_int d) @ drop ?m (d_int d))),
              d_exp = Exp (0 - int (length (drop ?m (d_int d))))\<rparr>"
    using parse_Decimal_shape [OF ip ipd fp, of "d_sign d" None] str_Decimal_point [OF assms(1,3,4)]
    by simp
  also have "0 - int (length (drop ?m (d_int d))) = e" using m assms(4) by simp
  finally show ?thesis
    using assms(1,2) by (simp add: str_nat_of_canonical Decimal_eqI [symmetric])
qed

lemma round_trip_sci_one:
  assumes "d_exp d = Exp e" "canonical_digits (d_int d)"
    "\<not> (e \<le> 0 \<and> - 6 < e + int (length (d_int d)))" "length (d_int d) = 1"
  shows "parse_Decimal (str_Decimal d) = Some d"
proof -
  from assms(2) obtain a as where c: "d_int d = a # as" "list_all is_digit (d_int d)"
    by (cases "d_int d") (simp_all add: canonical_digits_def)
  have "parse_Decimal (str_Decimal d) =
        Some \<lparr>d_sign = d_sign d, d_int = str_nat (nat_of_digits (d_int d)), d_exp = Exp e\<rparr>"
    using parse_Decimal_shape [OF c, of None "d_sign d" "Some e"] c(1)
      str_Decimal_sci_one [OF assms(1,3,4)]
    by simp
  then show ?thesis
    using assms(1,2) by (simp add: str_nat_of_canonical Decimal_eqI [symmetric])
qed

lemma round_trip_sci_many:
  assumes "d_exp d = Exp e" "canonical_digits (d_int d)"
    "\<not> (e \<le> 0 \<and> - 6 < e + int (length (d_int d)))" "1 < length (d_int d)"
  shows "parse_Decimal (str_Decimal d) = Some d"
proof -
  from assms(2) have dg: "list_all is_digit (d_int d)" by (simp add: canonical_digits_def)
  from assms(4) obtain a as where ip: "take 1 (d_int d) = a # as"
    by (cases "d_int d") auto
  have ipd: "list_all is_digit (take 1 (d_int d))"
    using dg by (auto simp: list_all_iff dest: in_set_takeD)
  have fp: "case Some (drop 1 (d_int d)) of None \<Rightarrow> True | Some fp \<Rightarrow> list_all is_digit fp"
    using dg by (auto simp: list_all_iff dest: in_set_dropD)
  have "parse_Decimal (str_Decimal d) =
        Some \<lparr>d_sign = d_sign d,
              d_int = str_nat (nat_of_digits (take 1 (d_int d) @ drop 1 (d_int d))),
              d_exp = Exp (e + int (length (d_int d)) - 1 - int (length (drop 1 (d_int d))))\<rparr>"
    using parse_Decimal_shape [OF ip ipd fp, of "d_sign d" "Some (e + int (length (d_int d)) - 1)"]
      str_Decimal_sci_many [OF assms(1,3,4)]
    by simp
  also have "e + int (length (d_int d)) - 1 - int (length (drop 1 (d_int d))) = e"
    using assms(4) by simp
  finally show ?thesis
    using assms(1,2) by (simp add: str_nat_of_canonical Decimal_eqI [symmetric])
qed

lemma round_trip_Decimal:
  assumes "d_exp d = Exp e" "canonical_digits (d_int d)"
  shows "parse_Decimal (str_Decimal d) = Some d"
proof -
  from assms(2) have n: "1 \<le> length (d_int d)"
    by (cases "d_int d") (simp_all add: canonical_digits_def)
  consider (integer) "e = 0"
    | (small) "e < 0" "- 6 < e + int (length (d_int d))" "e + int (length (d_int d)) \<le> 0"
    | (point) "e < 0" "0 < e + int (length (d_int d))"
    | (sci_one) "\<not> (e \<le> 0 \<and> - 6 < e + int (length (d_int d)))" "length (d_int d) = 1"
    | (sci_many) "\<not> (e \<le> 0 \<and> - 6 < e + int (length (d_int d)))" "1 < length (d_int d)"
    using n by linarith
  then show ?thesis
  proof cases
    case integer
    with assms show ?thesis by (simp add: round_trip_integer)
  next
    case small
    with assms show ?thesis by (simp add: round_trip_small)
  next
    case point
    with assms show ?thesis by (simp add: round_trip_point)
  next
    case sci_one
    with assms show ?thesis using round_trip_sci_one by blast
  next
    case sci_many
    with assms show ?thesis using round_trip_sci_many by blast
  qed
qed

lemma exponent_marker_iff:
  assumes "d_exp d = Exp e" "canonical_digits (d_int d)"
  shows "CHR ''E'' \<in> set (str_Decimal d) \<longleftrightarrow> 0 < e \<or> e + int (length (d_int d)) \<le> - 6"
proof -
  from assms(2) have n: "1 \<le> length (d_int d)" and dg: "list_all is_digit (d_int d)"
    by (cases "d_int d"; simp add: canonical_digits_def)+
  from n have ne: "d_int d \<noteq> []" by auto
  have noE: "CHR ''E'' \<notin> set (d_int d)" using dg by (rule E_not_in_digits)
  then have noE': "CHR ''E'' \<notin> set (take k (d_int d))" "CHR ''E'' \<notin> set (drop k (d_int d))" for k
    by (auto dest: in_set_takeD in_set_dropD)
  consider (integer) "e = 0"
    | (small) "e < 0" "- 6 < e + int (length (d_int d))" "e + int (length (d_int d)) \<le> 0"
    | (point) "e < 0" "0 < e + int (length (d_int d))"
    | (sci_one) "\<not> (e \<le> 0 \<and> - 6 < e + int (length (d_int d)))" "length (d_int d) = 1"
    | (sci_many) "\<not> (e \<le> 0 \<and> - 6 < e + int (length (d_int d)))" "1 < length (d_int d)"
    using n by linarith
  then show ?thesis
  proof cases
    case integer
    with assms(1) noE show ?thesis
      using str_Decimal_integer [of d] ne by auto
  next
    case small
    with assms(1) noE show ?thesis
      using str_Decimal_small [of d e] by auto
  next
    case point
    with assms(1) noE' show ?thesis
      using str_Decimal_point [of d e] by auto
  next
    case sci_one
    with assms(1) show ?thesis
      using str_Decimal_sci_one [of d e] by auto
  next
    case sci_many
    with assms(1) show ?thesis
      using str_Decimal_sci_many [of d e] by auto
  qed
qed

text \<open>
  Claim C3, as the code has it. For every finite decimal value, whose coefficient is the text
  of a natural number, the Value Serializer returns the \<^verbatim>\<open>str\<close> text of the decimal and
  loses no precision: reading the text back gives the same sign, coefficient and exponent. The
  text carries an exponent (scientific notation) exactly when the decimal's exponent is
  positive or the exponent plus the number of coefficient digits is at most \<open>-6\<close>; otherwise
  it is plain decimal notation.
\<close>

theorem decimal_text_round_trip:
  assumes "d_exp d = Exp e" "canonical_digits (d_int d)"
  shows "format_val (PDecimal d) = str_Decimal d \<and>
         parse_Decimal (format_val (PDecimal d)) = Some d \<and>
         (CHR ''E'' \<in> set (format_val (PDecimal d)) \<longleftrightarrow>
            0 < e \<or> e + int (length (d_int d)) \<le> - 6)"
  using round_trip_Decimal [OF assms] exponent_marker_iff [OF assms]
  by (simp add: format_val_Decimal)

theorem decimal_text_round_trip_witness:
  "d_exp \<lparr>d_sign = False, d_int = ''1999'', d_exp = Exp (- 2)\<rparr> = Exp (- 2) \<and>
   canonical_digits (d_int \<lparr>d_sign = False, d_int = ''1999'', d_exp = Exp (- 2)\<rparr>) \<and>
   format_val (PDecimal \<lparr>d_sign = False, d_int = ''1999'', d_exp = Exp (- 2)\<rparr>) = ''19.99'' \<and>
   parse_Decimal ''19.99'' = Some \<lparr>d_sign = False, d_int = ''1999'', d_exp = Exp (- 2)\<rparr> \<and>
   CHR ''E'' \<notin> set ''19.99''"
proof -
  let ?d = "\<lparr>d_sign = False, d_int = ''1999'', d_exp = Exp (- 2)\<rparr>"
  have e: "d_exp ?d = Exp (- 2)" by simp
  have c: "canonical_digits (d_int ?d)" by (simp add: canonical_digits_def is_digit_def)
  have t: "format_val (PDecimal ?d) = ''19.99''"
    by (simp add: format_val_Decimal str_Decimal_def)
  from decimal_text_round_trip [OF e c]
  have "parse_Decimal (format_val (PDecimal ?d)) = Some ?d" by blast
  then have p: "parse_Decimal ''19.99'' = Some ?d" unfolding t .
  show ?thesis using e c t p by simp
qed

text \<open>
  Claim C3 as the specification states it fails: the decimal \<^verbatim>\<open>1E+2\<close> serializes with an
  exponent, and a decimal NaN serializes as the bare word \<^verbatim>\<open>NaN\<close>, which is no decimal text.
\<close>

theorem decimal_scientific_counterexample:
  "format_val (PDecimal \<lparr>d_sign = False, d_int = ''1'', d_exp = Exp 2\<rparr>) = ''1E+2'' \<and>
   CHR ''E'' \<in> set (format_val (PDecimal \<lparr>d_sign = False, d_int = ''1'', d_exp = Exp 2\<rparr>)) \<and>
   format_val (PDecimal \<lparr>d_sign = False, d_int = [], d_exp = Expn\<rparr>) = ''NaN''"
  by (simp add: format_val_Decimal str_Decimal_def str_signed_def str_nat.simps digit_char_def)

section \<open>Value Serializer: the rules\<close>








































section \<open>Evaluating the example sources\<close>

lemmas example_defs = customers_def orders_def audit_log_def regions_def offices_def
  shipments_def memberships_def accounts_def logins_def
  orders_customer_fk_def offices_region_fk_def shipments_order_fk_def shipments_customer_fk_def
  memberships_customer_fk_def logins_account_fk_def shop_rows_def shop_pairs_def
  shop_foreign_keys_def shop_def

lemmas eval_defs = run_def load_edge_table_def load_foreign_key_def lookup_column_def
  load_node_table_def pk_cols_def prop_pairs_def column_def_def infer_type_def isinstance_def
  format_val_int format_val_str format_val_date format_val_Decimal str_Decimal_def
  date_isoformat_def zpad_def str_int_def str_nat.simps digit_char_def Let_def

section \<open>Node Loader: results\<close>

lemma executed_append: "executed (xs @ ys) = executed xs @ executed ys"
  by (induction xs rule: executed.induct) simp_all

lemma executed_map_Execute: "executed (map (\<lambda>x. Execute (f x)) xs) = map f xs"
  by (induction xs) simp_all

lemma load_nodes_append:
  "load_nodes src (xs @ ys) = load_nodes src xs @ load_nodes src ys"
  by (induction xs) simp_all

lemma load_node_table_skip:
  "length (pk_cols tbl) \<noteq> 1 \<Longrightarrow>
   load_node_table src tbl = [Print (Skipping (tbl_name tbl) (length (pk_cols tbl)))]"
  by (simp add: load_node_table_def)

lemma executed_load_node_table:
  "length (pk_cols tbl) = 1 \<Longrightarrow>
   executed (load_node_table src tbl) =
     CreateNodeTable (tbl_name tbl) (map column_def (tbl_columns tbl)) #
     map (\<lambda>row. CreateNode (tbl_name tbl) (join '', '' (prop_pairs tbl row))) (select_rows src tbl)"
  by (simp add: load_node_table_def Let_def executed_append executed_map_Execute)

lemma node_label_load_node_table:
  "s \<in> set (executed (load_node_table src tbl)) \<Longrightarrow> node_label s = Some (tbl_name tbl)"
  by (cases "length (pk_cols tbl) = 1")
     (auto simp: executed_load_node_table load_node_table_skip)

lemma node_label_load_nodes:
  "s \<in> set (executed (load_nodes src tbls)) \<Longrightarrow>
   \<exists>t \<in> set tbls. length (pk_cols t) = 1 \<and> node_label s = Some (tbl_name t)"
proof (induction tbls)
  case Nil
  then show ?case by simp
next
  case (Cons t ts)
  from Cons.prems consider
    (here) "s \<in> set (executed (load_node_table src t))" |
    (later) "s \<in> set (executed (load_nodes src ts))"
    by (auto simp: executed_append)
  then show ?case
  proof cases
    case here
    then have "length (pk_cols t) = 1"
      by (cases "length (pk_cols t) = 1") (auto simp: load_node_table_skip)
    with here show ?thesis by (auto dest: node_label_load_node_table)
  next
    case later
    with Cons.IH show ?thesis by auto
  qed
qed

lemma skipped_table_never_created:
  assumes "distinct (map tbl_name tbls)" "tbl \<in> set tbls" "length (pk_cols tbl) \<noteq> 1"
    and "s \<in> set (executed (load_nodes src tbls))"
  shows "node_label s \<noteq> Some (tbl_name tbl)"
proof
  assume eq: "node_label s = Some (tbl_name tbl)"
  from assms(4) obtain t where t: "t \<in> set tbls" "length (pk_cols t) = 1"
    "node_label s = Some (tbl_name t)"
    by (auto dest: node_label_load_nodes)
  with eq have "tbl_name t = tbl_name tbl" by simp
  with assms(1,2) t(1) have "t = tbl" by (auto simp: distinct_map inj_on_def)
  with t(2) assms(3) show False by simp
qed

lemma prop_pairs_nth:
  "length row = length (tbl_columns tbl) \<Longrightarrow> i < length (tbl_columns tbl) \<Longrightarrow>
   prop_pairs tbl row ! i = col_name (tbl_columns tbl ! i) @ '': '' @ format_val (row ! i)"
  by (simp add: prop_pairs_def)

lemma prop_pairs_length:
  "length row = length (tbl_columns tbl) \<Longrightarrow> length (prop_pairs tbl row) = length (tbl_columns tbl)"
  by (simp add: prop_pairs_def)

text \<open>
  Claim C5. A table whose primary-key column count is not exactly one is skipped: its turn in
  the loop prints the warning and nothing else, executes no statement, and the loop goes on
  with the tables after it; where the reflected tables have distinct names, no statement of
  the node phase creates or populates a node type of the skipped table's name. A table with
  exactly one primary-key column has its node type created first and then one node-creation
  statement per fetched row, in the order fetched; the properties of a row are one
  \<^verbatim>\<open>column: serialized-value\<close> pair per column, in column order.
\<close>

theorem node_loader_skips_or_loads:
  "(length (pk_cols tbl) \<noteq> 1 \<longrightarrow>
      load_node_table src tbl = [Print (Skipping (tbl_name tbl) (length (pk_cols tbl)))] \<and>
      executed (load_node_table src tbl) = [] \<and>
      (distinct (map tbl_name tbls) \<and> tbl \<in> set tbls \<longrightarrow>
         (\<forall>s \<in> set (executed (load_nodes src tbls)). node_label s \<noteq> Some (tbl_name tbl)))) \<and>
   load_nodes src (before @ tbl # after) =
      load_nodes src before @ load_node_table src tbl @ load_nodes src after \<and>
   (length (pk_cols tbl) = 1 \<longrightarrow>
      executed (load_node_table src tbl) =
        CreateNodeTable (tbl_name tbl) (map column_def (tbl_columns tbl)) #
        map (\<lambda>row. CreateNode (tbl_name tbl) (join '', '' (prop_pairs tbl row)))
          (select_rows src tbl)) \<and>
   (length row = length (tbl_columns tbl) \<longrightarrow>
      length (prop_pairs tbl row) = length (tbl_columns tbl) \<and>
      (\<forall>i < length (tbl_columns tbl).
         prop_pairs tbl row ! i = col_name (tbl_columns tbl ! i) @ '': '' @ format_val (row ! i)))"
  using load_node_table_skip [of tbl src] executed_load_node_table [of tbl src]
    skipped_table_never_created [of tbls tbl _ src] prop_pairs_nth [of row tbl]
    prop_pairs_length [of row tbl]
  by (auto simp: load_nodes_append)

theorem node_loader_skips_or_loads_witness:
  "length (pk_cols audit_log) \<noteq> 1 \<and>
   load_node_table (shop [customers, audit_log]) audit_log = [Print (Skipping ''audit_log'' 0)] \<and>
   executed (load_node_table (shop [customers, audit_log]) audit_log) = [] \<and>
   distinct (map tbl_name [customers, audit_log]) \<and> audit_log \<in> set [customers, audit_log] \<and>
   list_all (\<lambda>s. node_label s \<noteq> Some ''audit_log'')
     (executed (load_nodes (shop [customers, audit_log]) [customers, audit_log])) \<and>
   length (pk_cols customers) = 1 \<and>
   map cypher (executed (load_node_table (shop [customers, audit_log]) customers)) =
     [''CREATE NODE TABLE IF NOT EXISTS customers (id INT PRIMARY KEY, name STRING, joined STRING);'',
      ''CREATE (n:customers {id: 1, name: '' @ [sq] @ ''Alice'' @ [sq] @ '', joined: '' @
        [sq] @ ''2020-01-01'' @ [sq] @ ''});'',
      ''CREATE (n:customers {id: 2, name: '' @ [sq] @ ''O'' @ [bs, sq] @ ''Brien'' @ [sq] @
        '', joined: '' @ [sq] @ ''2021-06-15'' @ [sq] @ ''});''] \<and>
   prop_pairs orders [PInt 1, PInt 1, PDecimal \<lparr>d_sign = False, d_int = ''1999'', d_exp = Exp (- 2)\<rparr>] =
     [''id: 1'', ''customer_id: 1'', ''total: 19.99'']"
  using node_loader_skips_or_loads [where tbl = audit_log and src = "shop [customers, audit_log]"
      and tbls = "[customers, audit_log]" and before = "[customers]" and after = "[]" and row = "[]"]
    node_loader_skips_or_loads [where tbl = customers and src = "shop [customers, audit_log]"
      and tbls = "[customers, audit_log]" and before = "[]" and after = "[audit_log]"
      and row = "[PInt 1, PStr ''Alice'', PDate \<lparr>year = 2020, month = 1, day = 1\<rparr>]"]
  by (simp add: example_defs eval_defs)

section \<open>Edge Loader: results\<close>

lemma load_foreign_key_cases:
  assumes "constrained_columns fk = c # cs" "lookup_column tbl c = Some fk_col"
    "referred_columns fk = p # ps" "tbl_primary_key tbl = k # ks"
  shows "load_foreign_key src tbl fk =
     (let pairs = select_pairs src tbl (col_name fk_col) k;
          edge = referred_table fk @ ''_'' @ tbl_name tbl @ ''_edge'' in
      if pairs = [] then ([], Completed)
      else ([Execute (CreateRelTable edge (referred_table fk) (tbl_name tbl))] @
            map (\<lambda>(parent_id, child_id).
                   Execute (CreateRel (referred_table fk) (tbl_name tbl) p parent_id k child_id edge))
              pairs @
            [Print (InsertedRelationships (length pairs) (referred_table fk) (tbl_name tbl))],
            Completed))"
  using assms by (simp add: load_foreign_key_def Let_def)

lemma executed_map_Execute_pair:
  "executed (map (\<lambda>(a, b). Execute (f a b)) xs) = map (\<lambda>(a, b). f a b) xs"
  by (induction xs) auto

lemma edge_stmts_foreign_key: "list_all is_edge_stmt (executed (fst (load_foreign_key src tbl fk)))"
  by (auto simp: load_foreign_key_def Let_def executed_append executed_map_Execute_pair
        list_all_iff split: list.splits option.splits)

lemma edge_stmts_foreign_keys:
  "list_all is_edge_stmt (executed (fst (load_foreign_keys src tbl fks)))"
proof (induction fks)
  case Nil
  show ?case by simp
next
  case (Cons fk fks)
  obtain evs r where a: "load_foreign_key src tbl fk = (evs, r)" by (cases "load_foreign_key src tbl fk")
  obtain evs' r' where b: "load_foreign_keys src tbl fks = (evs', r')"
    by (cases "load_foreign_keys src tbl fks")
  from edge_stmts_foreign_key [of src tbl fk] a have "list_all is_edge_stmt (executed evs)" by simp
  moreover from Cons b have "list_all is_edge_stmt (executed evs')" by simp
  ultimately show ?case using a b by (cases r) (simp_all add: executed_append)
qed

lemma edge_stmts_edge_table: "list_all is_edge_stmt (executed (fst (load_edge_table src tbl)))"
  by (cases "pk_cols tbl") (simp_all add: load_edge_table_def edge_stmts_foreign_keys)

lemma edge_stmts_load_edges: "list_all is_edge_stmt (executed (fst (load_edges src tbls)))"
proof (induction tbls)
  case Nil
  show ?case by simp
next
  case (Cons t ts)
  obtain evs r where a: "load_edge_table src t = (evs, r)" by (cases "load_edge_table src t")
  obtain evs' r' where b: "load_edges src ts = (evs', r')" by (cases "load_edges src ts")
  from edge_stmts_edge_table [of src t] a have "list_all is_edge_stmt (executed evs)" by simp
  moreover from Cons b have "list_all is_edge_stmt (executed evs')" by simp
  ultimately show ?case using a b by (cases r) (simp_all add: executed_append)
qed

lemma node_stmts_load_node_table: "list_all is_node_stmt (executed (load_node_table src tbl))"
  by (cases "length (pk_cols tbl) = 1")
     (simp_all add: executed_load_node_table load_node_table_skip list_all_iff)

lemma node_stmts_load_nodes: "list_all is_node_stmt (executed (load_nodes src tbls))"
  by (induction tbls) (simp_all add: executed_append node_stmts_load_node_table)

lemma node_not_edge: "is_node_stmt s \<Longrightarrow> \<not> is_edge_stmt s"
  by (cases s) simp_all

lemma executed_run:
  "executed (fst (run src)) =
   executed (load_nodes src (tables src)) @ executed (fst (load_edges src (tables src)))"
  by (cases "load_edges src (tables src)") (simp add: run_def executed_append)

lemma load_edge_table_no_pk: "pk_cols tbl = [] \<Longrightarrow> load_edge_table src tbl = ([], Raised IndexError)"
  by (simp add: load_edge_table_def)

lemma load_edges_raises:
  "tbl \<in> set tbls \<Longrightarrow> pk_cols tbl = [] \<Longrightarrow> \<exists>evs e. load_edges src tbls = (evs, Raised e)"
proof (induction tbls)
  case Nil
  then show ?case by simp
next
  case (Cons t ts)
  obtain evs r where a: "load_edge_table src t = (evs, r)" by (cases "load_edge_table src t")
  show ?case
  proof (cases r)
    case (Raised e)
    with a show ?thesis by simp
  next
    case Completed
    with a Cons.prems have "t \<noteq> tbl" by (auto simp: load_edge_table_no_pk)
    with Cons obtain evs' e where "load_edges src ts = (evs', Raised e)" by auto
    with a Completed show ?thesis by simp
  qed
qed

lemma load_edges_first_failure:
  "load_edges src before = (evs0, Completed) \<Longrightarrow> pk_cols tbl = [] \<Longrightarrow>
   load_edges src (before @ tbl # after) = (evs0, Raised IndexError)"
proof (induction before arbitrary: evs0)
  case Nil
  then show ?case by (simp add: load_edge_table_no_pk)
next
  case (Cons t ts)
  obtain evs r where a: "load_edge_table src t = (evs, r)" by (cases "load_edge_table src t")
  obtain evs' r' where b: "load_edges src ts = (evs', r')" by (cases "load_edges src ts")
  from Cons.prems(1) a b have r: "r = Completed" "r' = Completed" "evs0 = evs @ evs'"
    by (cases r; simp)+
  from Cons.IH [of evs'] b r Cons.prems(2)
  have "load_edges src (ts @ tbl # after) = (evs', Raised IndexError)" by simp
  with a r show ?case by simp
qed

text \<open>
  Claim C7. For a foreign key whose fetched list of (foreign-key value, child-primary-key
  value) pairs is empty, the Edge Loader executes nothing: no relationship type is created, no
  relationship-creation statement is issued, and the loop goes on with the next foreign key.
\<close>

theorem empty_pairs_create_nothing:
  assumes "constrained_columns fk = c # cs" "lookup_column tbl c = Some fk_col"
    "referred_columns fk = p # ps" "tbl_primary_key tbl = k # ks"
    "select_pairs src tbl (col_name fk_col) k = []"
  shows "load_foreign_key src tbl fk = ([], Completed) \<and>
         executed (fst (load_foreign_key src tbl fk)) = [] \<and>
         load_foreign_keys src tbl (fk # fks) = load_foreign_keys src tbl fks"
proof -
  have "load_foreign_key src tbl fk = ([], Completed)"
    using assms by (simp add: load_foreign_key_cases)
  moreover obtain evs r where "load_foreign_keys src tbl fks = (evs, r)"
    by (cases "load_foreign_keys src tbl fks")
  ultimately show ?thesis by simp
qed

theorem empty_pairs_create_nothing_witness:
  "constrained_columns orders_customer_fk = [''customer_id''] \<and>
   lookup_column orders ''customer_id'' =
     Some \<lparr>col_name = ''customer_id'', col_type = Integer, col_primary_key = False\<rparr> \<and>
   referred_columns orders_customer_fk = [''id''] \<and>
   tbl_primary_key orders = [''id''] \<and>
   select_pairs ((shop [customers, orders])\<lparr>select_pairs := \<lambda>tbl fk_col child_pk. []\<rparr>)
     orders ''customer_id'' ''id'' = [] \<and>
   load_foreign_key ((shop [customers, orders])\<lparr>select_pairs := \<lambda>tbl fk_col child_pk. []\<rparr>)
     orders orders_customer_fk = ([], Completed) \<and>
   run ((shop [customers, orders])\<lparr>select_pairs := \<lambda>tbl fk_col child_pk. []\<rparr>) =
     (Print LoadingNodes # load_nodes (shop [customers, orders]) [customers, orders] @
      [Print LoadingRelationships], Completed)"
  using empty_pairs_create_nothing [where fk = orders_customer_fk and tbl = orders
      and src = "(shop [customers, orders])\<lparr>select_pairs := \<lambda>tbl fk_col child_pk. []\<rparr>"
      and c = "''customer_id''" and cs = "[]" and p = "''id''" and ps = "[]"
      and k = "''id''" and ks = "[]" and fks = "[]"
      and fk_col = "\<lparr>col_name = ''customer_id'', col_type = Integer, col_primary_key = False\<rparr>"]
  by (simp add: example_defs eval_defs)











section \<open>The run: results\<close>

text \<open>
  Claim C9. In every run, every node statement (node-type creation or node insertion) comes
  before every edge statement (relationship-type creation or relationship creation) in the
  sequence of statements sent to the store.
\<close>

theorem nodes_before_edges:
  assumes "run src = (evs, r)"
    and "i < length (executed evs)" "j < length (executed evs)"
    and "is_edge_stmt (executed evs ! i)" "is_node_stmt (executed evs ! j)"
  shows "j < i"
proof -
  let ?ns = "executed (load_nodes src (tables src))"
  let ?es = "executed (fst (load_edges src (tables src)))"
  have split: "executed evs = ?ns @ ?es" using assms(1) executed_run [of src] by simp
  have ns: "\<And>n. n < length ?ns \<Longrightarrow> is_node_stmt (?ns ! n)"
    using node_stmts_load_nodes [of src "tables src"] by (simp add: list_all_length)
  have es: "\<And>n. n < length ?es \<Longrightarrow> is_edge_stmt (?es ! n)"
    using edge_stmts_load_edges [of src "tables src"] by (simp add: list_all_length)
  have i: "length ?ns \<le> i"
  proof (rule ccontr)
    assume "\<not> length ?ns \<le> i"
    then have "i < length ?ns" by simp
    with ns [of i] split have "is_node_stmt (executed evs ! i)" by (simp add: nth_append)
    with assms(4) show False by (simp add: node_not_edge)
  qed
  have j: "j < length ?ns"
  proof (rule ccontr)
    assume n: "\<not> j < length ?ns"
    with assms(3) split have "j - length ?ns < length ?es" by simp
    with es have "is_edge_stmt (?es ! (j - length ?ns))" by simp
    with n split have "is_edge_stmt (executed evs ! j)" by (simp add: nth_append)
    with assms(5) show False by (simp add: node_not_edge)
  qed
  from i j show ?thesis by simp
qed

theorem nodes_before_edges_witness:
  "map cypher (executed (fst (run (shop [customers, orders])))) ! 4 =
     ''CREATE (n:orders {id: 1, customer_id: 1, total: 19.99});'' \<and>
   map cypher (executed (fst (run (shop [customers, orders])))) ! 5 =
     ''CREATE REL TABLE IF NOT EXISTS customers_orders_edge(FROM customers TO orders);'' \<and>
   length (executed (fst (run (shop [customers, orders])))) = 7 \<and>
   is_edge_stmt (executed (fst (run (shop [customers, orders]))) ! 5) \<and>
   is_node_stmt (executed (fst (run (shop [customers, orders]))) ! 4) \<and>
   (4 :: nat) < 5"
  using nodes_before_edges [where src = "shop [customers, orders]"
      and evs = "fst (run (shop [customers, orders]))" and r = "snd (run (shop [customers, orders]))"
      and i = 5 and j = 4]
  by (simp add: example_defs eval_defs)

text \<open>
  Claim C10. The edge phase goes over all reflected tables and indexes the first primary-key
  column of each. A reflected table with no primary-key column, which the node phase skips
  with a warning, makes the edge phase raise: the run ends with an exception, and the
  exception is the \<^verbatim>\<open>IndexError\<close> of line 89 whenever the tables before it were processed
  without error.
\<close>

theorem edge_phase_raises_without_primary_key:
  assumes "tbl \<in> set (tables src)" "pk_cols tbl = []"
  shows "load_node_table src tbl = [Print (Skipping (tbl_name tbl) 0)] \<and>
         load_edge_table src tbl = ([], Raised IndexError) \<and>
         (\<exists>evs e. run src = (evs, Raised e)) \<and>
         (\<forall>before after evs0.
            tables src = before @ tbl # after \<and> load_edges src before = (evs0, Completed) \<longrightarrow>
            snd (run src) = Raised IndexError)"
proof -
  have a: "load_node_table src tbl = [Print (Skipping (tbl_name tbl) 0)]"
    using assms(2) load_node_table_skip [of tbl src] by simp
  have b: "load_edge_table src tbl = ([], Raised IndexError)"
    using assms(2) by (rule load_edge_table_no_pk)
  obtain evs e where "load_edges src (tables src) = (evs, Raised e)"
    using load_edges_raises [OF assms] by blast
  then have c: "\<exists>evs e. run src = (evs, Raised e)" by (simp add: run_def)
  have d: "snd (run src) = Raised IndexError"
    if "tables src = before @ tbl # after" "load_edges src before = (evs0, Completed)"
    for before after evs0
    using load_edges_first_failure [OF that(2) assms(2), of after] that(1) by (simp add: run_def)
  from a b c d show ?thesis by blast
qed

theorem edge_phase_raises_without_primary_key_witness:
  "audit_log \<in> set (tables (shop [customers, audit_log, orders])) \<and>
   pk_cols audit_log = [] \<and>
   load_node_table (shop [customers, audit_log, orders]) audit_log =
     [Print (Skipping ''audit_log'' 0)] \<and>
   load_edge_table (shop [customers, audit_log, orders]) audit_log = ([], Raised IndexError) \<and>
   load_edges (shop [customers, audit_log, orders]) [customers] = ([], Completed) \<and>
   run (shop [customers, audit_log, orders]) =
     (Print LoadingNodes # load_nodes (shop [customers, audit_log, orders])
        [customers, audit_log, orders] @ [Print LoadingRelationships],
      Raised IndexError)"
  using edge_phase_raises_without_primary_key [where tbl = audit_log
      and src = "shop [customers, audit_log, orders]"]
  by (simp add: example_defs eval_defs)

text \<open>
  Claim C6 on the code, at a source where \<^verbatim>\<open>regions\<close> has a two-column primary key and
  \<^verbatim>\<open>offices\<close> has a foreign key to it. The node phase skips \<^verbatim>\<open>regions\<close>; the edge phase
  has no check of the parent and creates the relationship type from the node type that was
  never created, then a relationship that matches on it.
\<close>

theorem composite_parent_edge_is_created:
  "length (pk_cols regions) = 2 \<and>
   run (shop [regions, offices]) =
     ([Print LoadingNodes,
       Print (Skipping ''regions'' 2),
       Execute (CreateNodeTable ''offices''
                  [''id INT PRIMARY KEY'', ''country INT'', ''region_code INT'']),
       Print (CreatedNodeTable ''offices''),
       Print (RowsIn 1 ''offices''),
       Execute (CreateNode ''offices'' ''id: 5, country: 44, region_code: 7''),
       Print (InsertedNodes 1 ''offices''),
       Print LoadingRelationships,
       Execute (CreateRelTable ''regions_offices_edge'' ''regions'' ''offices''),
       Execute (CreateRel ''regions'' ''offices'' ''country'' (PInt 44) ''id'' (PInt 5)
                  ''regions_offices_edge''),
       Print (InsertedRelationships 1 ''regions'' ''offices'')],
      Completed)"
  by (simp add: example_defs eval_defs)

end
